theory Spec2Isabelle
  imports Complex_Main "HOL-Library.Word"
begin

unbundle bit_operations_syntax

section \<open>JavaScript values used by the document processor\<close>

text \<open>
  A JavaScript string is a sequence of 16-bit code units; a Node.js \<open>Buffer\<close> is a
  sequence of bytes. Source literals are written as HOL strings and converted with
  \<open>str\<close>.
\<close>

type_synonym codeunit = "16 word"
type_synonym jsstring = "codeunit list"
type_synonym byte = "8 word"
type_synonym buffer = "byte list"

definition str :: "string \<Rightarrow> jsstring" where
  "str s = map of_char s"

text \<open>
  The characters matched by the regular expression class \<open>\s\<close> and removed by
  \<open>String.prototype.trim\<close>: ECMAScript WhiteSpace and LineTerminator.
\<close>

definition is_ws :: "codeunit \<Rightarrow> bool" where
  "is_ws c \<longleftrightarrow>
     c = 0x09 \<or> c = 0x0A \<or> c = 0x0B \<or> c = 0x0C \<or> c = 0x0D \<or> c = 0x20 \<or>
     c = 0xA0 \<or> c = 0x1680 \<or> (0x2000 \<le> c \<and> c \<le> 0x200A) \<or>
     c = 0x2028 \<or> c = 0x2029 \<or> c = 0x202F \<or> c = 0x205F \<or> c = 0x3000 \<or>
     c = 0xFEFF"

text \<open>\<open>text.trim()\<close>: white space is removed at both ends.\<close>

definition trim :: "jsstring \<Rightarrow> jsstring" where
  "trim s = rev (dropWhile is_ws (rev (dropWhile is_ws s)))"

text \<open>
  \<open>s.split(/\s+/)\<close>: the pieces of \<open>s\<close> between maximal runs of white space. A run
  at the start or at the end leaves an empty piece there, and the empty string gives
  one empty piece. The flag says whether the scan is inside a run; \<open>cur\<close> is the piece
  read so far.
\<close>

fun split_go :: "bool \<Rightarrow> jsstring \<Rightarrow> jsstring \<Rightarrow> jsstring list" where
  "split_go inws cur [] = [cur]"
| "split_go inws cur (c # cs) =
     (if is_ws c then (if inws then split_go True cur cs else cur # split_go True [] cs)
      else split_go False (cur @ [c]) cs)"

definition split_ws :: "jsstring \<Rightarrow> jsstring list" where
  "split_ws s = split_go False [] s"

text \<open>
  \<open>String.prototype.toLowerCase\<close> on the letters A to Z. The case mapping of the
  platform for code units outside ASCII is not modelled: they are kept.
\<close>

definition toLowerCase :: "jsstring \<Rightarrow> jsstring" where
  "toLowerCase s = map (\<lambda>c. if 0x41 \<le> c \<and> c \<le> 0x5A then c + 0x20 else c) s"

text \<open>\<open>s.startsWith(t)\<close> and \<open>s.includes(t)\<close> on strings.\<close>

definition startsWith :: "jsstring \<Rightarrow> jsstring \<Rightarrow> bool" where
  "startsWith s t \<longleftrightarrow> take (length t) s = t"

fun includes_str :: "jsstring \<Rightarrow> jsstring \<Rightarrow> bool" where
  "includes_str [] t \<longleftrightarrow> t = []"
| "includes_str (c # cs) t \<longleftrightarrow> startsWith (c # cs) t \<or> includes_str cs t"

text \<open>\<open>s.split(sep)\<close> for a one-character separator \<open>sep\<close>.\<close>

fun split_char :: "codeunit \<Rightarrow> jsstring \<Rightarrow> jsstring list" where
  "split_char sep [] = [[]]"
| "split_char sep (c # cs) =
     (if c = sep then [] # split_char sep cs
      else (case split_char sep cs of
              [] \<Rightarrow> [[c]]
            | t # ts \<Rightarrow> (c # t) # ts))"

section \<open>Utility functions\<close>

text \<open>
  \<^verbatim>\<open>function countWords(text) {
    if (!text || typeof text !== 'string') return 0;
    return text.trim().split(/\s+/).filter(word => word.length > 0).length;
  }\<close>
\<close>

definition countWords :: "jsstring \<Rightarrow> nat" where
  "countWords text =
     (if text = [] then 0
      else length (filter (\<lambda>word. length word > 0) (split_ws (trim text))))"

text \<open>
  \<^verbatim>\<open>function detectLanguage(text) {
    if (!text) return 'unknown';
    const commonWords = { en: [...], es: [...], fr: [...] };
    const words = text.toLowerCase().split(/\s+/).slice(0, 100);
    let maxScore = 0;
    let detectedLang = 'en';
    Object.entries(commonWords).forEach(([lang, langWords]) => {
      const score = words.filter(word => langWords.includes(word)).length;
      if (score > maxScore) { maxScore = score; detectedLang = lang; }
    });
    return detectedLang;
  }\<close>
  \<open>Object.entries\<close> lists the three languages in the order they are written.
\<close>

definition words_en :: "jsstring list" where
  "words_en = map str [''the'', ''and'', ''or'', ''but'', ''in'', ''on'', ''at'', ''to'', ''for'', ''of'']"

definition words_es :: "jsstring list" where
  "words_es = map str [''el'', ''la'', ''y'', ''o'', ''pero'', ''en'', ''un'', ''una'', ''de'', ''que'']"

definition words_fr :: "jsstring list" where
  "words_fr = map str [''le'', ''de'', ''et'', ''ou'', ''mais'', ''dans'', ''sur'', ''pour'', ''avec'', ''ce'']"

definition commonWords :: "(jsstring \<times> jsstring list) list" where
  "commonWords = [(str ''en'', words_en), (str ''es'', words_es), (str ''fr'', words_fr)]"

definition score :: "jsstring list \<Rightarrow> jsstring list \<Rightarrow> nat" where
  "score words langWords = length (filter (\<lambda>word. word \<in> set langWords) words)"

definition lang_step :: "jsstring list \<Rightarrow> nat \<times> jsstring \<Rightarrow> jsstring \<times> jsstring list \<Rightarrow> nat \<times> jsstring" where
  "lang_step words acc entry =
     (case acc of (maxScore, detectedLang) \<Rightarrow>
        (case entry of (lang, langWords) \<Rightarrow>
           (if score words langWords > maxScore then (score words langWords, lang)
            else (maxScore, detectedLang))))"

definition first_words :: "jsstring \<Rightarrow> jsstring list" where
  "first_words text = take 100 (split_ws (toLowerCase text))"

definition detectLanguage :: "jsstring \<Rightarrow> jsstring" where
  "detectLanguage text =
     (if text = [] then str ''unknown''
      else snd (foldl (lang_step (first_words text)) (0, str ''en'') commonWords))"

section \<open>Files, configuration and errors\<close>

text \<open>
  The uploaded file object, with the four properties the processor reads.
  Where a file is expected, the argument can be missing (\<open>null\<close> or \<open>undefined\<close>):
  that is \<open>None\<close> of \<open>jsfile option\<close>.
\<close>

record jsfile =
  originalname :: jsstring
  mimetype :: jsstring
  file_size :: int
  buffer :: buffer

text \<open>
  The two environment variables read by the validator. \<open>MAX_FILE_SIZE_MB\<close> holds the
  value of \<open>parseInt(process.env.MAX_FILE_SIZE_MB)\<close>, \<open>None\<close> for \<open>NaN\<close> (the variable
  is unset or does not start with a number); \<open>ALLOWED_FILE_TYPES\<close> holds the items of
  the comma-separated variable, \<open>None\<close> when it is unset.
\<close>

record config =
  MAX_FILE_SIZE_MB :: "int option"
  ALLOWED_FILE_TYPES :: "jsstring list option"

text \<open>
  One constructor for each error the code creates, with the values its message is built
  from, and one for an error thrown by a library or a collaborating service.
  \<^item> \<open>NoFileProvided\<close>: \<^verbatim>\<open>No file provided\<close>
  \<^item> \<open>FileSizeTooLarge mb\<close>: \<^verbatim>\<open>File size too large. Maximum allowed: ${mb}MB\<close>
  \<^item> \<open>UnsupportedFileType t allowed\<close>: \<^verbatim>\<open>Unsupported file type: ${t}. Supported types: ${allowed}\<close>
  \<^item> \<open>UnsupportedExtraction t\<close>: \<^verbatim>\<open>Unsupported file type: ${t}\<close>, thrown by \<open>extractText\<close>
  \<^item> \<open>PDFProcessingFailedCompletely\<close>: \<^verbatim>\<open>PDF processing failed completely\<close>
  \<^item> \<open>DocumentProcessingFailed e\<close>: \<^verbatim>\<open>Document processing failed: ${e.message}\<close>
  \<^item> \<open>CannotReadProperty p\<close>: the \<open>TypeError\<close> of the runtime for reading the property
    \<open>p\<close> of \<open>null\<close> or \<open>undefined\<close>
\<close>

datatype jserror =
    NoFileProvided
  | FileSizeTooLarge int
  | UnsupportedFileType jsstring "jsstring list"
  | UnsupportedExtraction jsstring
  | PDFProcessingFailedCompletely
  | External jsstring
  | DocumentProcessingFailed jserror
  | CannotReadProperty string

text \<open>A JavaScript number that results from a division of two lengths.\<close>

datatype jsnum = NaN | Infinity | Num real

definition js_div :: "nat \<Rightarrow> nat \<Rightarrow> jsnum" where
  "js_div a b = (if b = 0 then (if a = 0 then NaN else Infinity) else Num (real a / real b))"

definition js_times :: "jsnum \<Rightarrow> real \<Rightarrow> jsnum" where
  "js_times x k = (case x of NaN \<Rightarrow> NaN | Infinity \<Rightarrow> (if k > 0 then Infinity else NaN) | Num r \<Rightarrow> Num (r * k))"

section \<open>Validation\<close>

text \<open>
  \<^verbatim>\<open>const SUPPORTED_TYPES = {
    pdf: ['application/pdf'],
    doc: ['application/msword', 'application/vnd.openxmlformats-officedocument.wordprocessingml.document'],
    image: ['image/jpeg', 'image/jpg', 'image/png', 'image/gif', 'image/bmp'],
    text: ['text/plain']
  };\<close>
\<close>

definition SUPPORTED_pdf :: "jsstring list" where
  "SUPPORTED_pdf = [str ''application/pdf'']"

definition SUPPORTED_doc :: "jsstring list" where
  "SUPPORTED_doc = [str ''application/msword'',
     str ''application/vnd.openxmlformats-officedocument.wordprocessingml.document'']"

definition SUPPORTED_image :: "jsstring list" where
  "SUPPORTED_image = map str [''image/jpeg'', ''image/jpg'', ''image/png'', ''image/gif'', ''image/bmp'']"

definition SUPPORTED_text :: "jsstring list" where
  "SUPPORTED_text = [str ''text/plain'']"

text \<open>\<open>Object.values(SUPPORTED_TYPES).flat()\<close>\<close>

definition SUPPORTED_flat :: "jsstring list" where
  "SUPPORTED_flat = SUPPORTED_pdf @ SUPPORTED_doc @ SUPPORTED_image @ SUPPORTED_text"

record validation =
  isValid :: bool
  error :: "jserror option"

definition maxSize :: "config \<Rightarrow> int" where
  "maxSize cfg =
     (case MAX_FILE_SIZE_MB cfg of
        None \<Rightarrow> 50
      | Some n \<Rightarrow> (if n = 0 then 50 else n)) * 1024 * 1024"

definition allowedTypes :: "config \<Rightarrow> jsstring list" where
  "allowedTypes cfg =
     (case ALLOWED_FILE_TYPES cfg of
        None \<Rightarrow> map str [''pdf'', ''doc'', ''docx'', ''txt'', ''jpg'', ''jpeg'', ''png'']
      | Some ts \<Rightarrow> ts)"

definition isTypeSupported :: "jsstring \<Rightarrow> bool" where
  "isTypeSupported m \<longleftrightarrow> list_ex (\<lambda>type. m = type \<or> startsWith m type) SUPPORTED_flat"

text \<open>
  \<open>validateFile(file)\<close>; the argument is \<open>None\<close> when no file object is passed. The
  size in the message is \<open>maxSize / (1024 * 1024)\<close>, which is the number of megabytes
  that \<open>maxSize\<close> was computed from.
\<close>

definition validateFile :: "config \<Rightarrow> jsfile option \<Rightarrow> validation" where
  "validateFile cfg fileopt =
     (case fileopt of
        None \<Rightarrow> \<lparr>isValid = False, error = Some NoFileProvided\<rparr>
      | Some f \<Rightarrow>
          if file_size f > maxSize cfg
          then \<lparr>isValid = False, error = Some (FileSizeTooLarge (maxSize cfg div (1024 * 1024)))\<rparr>
          else if \<not> isTypeSupported (mimetype f)
          then \<lparr>isValid = False,
                error = Some (UnsupportedFileType (mimetype f) (allowedTypes cfg))\<rparr>
          else \<lparr>isValid = True, error = None\<rparr>)"

section \<open>Libraries and collaborating services\<close>

text \<open>
  The values returned by \<open>pdf-parse\<close>, \<open>mammoth\<close>, the document analysis of the cloud
  service and the upload to cloud storage. What the processor only copies into the
  metadata (\<open>info\<close>, \<open>version\<close>, \<open>messages\<close>, the pages of the analysis) is kept as
  text.
\<close>

record pdf_data =
  pdf_text :: jsstring
  numpages :: nat
  info :: jsstring
  version :: jsstring

record mammoth_result =
  mammoth_value :: jsstring
  messages :: jsstring

record analysis =
  analysis_text :: jsstring
  analysis_confidence :: real
  analysis_pages :: "jsstring list"

record upload_result =
  url :: jsstring

text \<open>
  Every call that leaves the module takes the state of the outside world and returns
  the new one, with either the error it throws (\<open>Inl\<close>) or its value (\<open>Inr\<close>).
  \<open>sharp_pipeline\<close> is the whole chain
  \<open>sharp(buffer).resize(...).grayscale().normalize().sharpen().png(...).toBuffer()\<close>.
  The logger is taken not to throw and its output is not part of the state.
\<close>

record 'w env =
  uuidv4 :: "'w \<Rightarrow> jsstring \<times> 'w"
  Date_now :: "'w \<Rightarrow> int \<times> 'w"
  toISOString :: "'w \<Rightarrow> jsstring \<times> 'w"
  pdf :: "buffer \<Rightarrow> 'w \<Rightarrow> (jserror + pdf_data) \<times> 'w"
  extractRawText :: "buffer \<Rightarrow> 'w \<Rightarrow> (jserror + mammoth_result) \<times> 'w"
  sharp_pipeline :: "buffer \<Rightarrow> 'w \<Rightarrow> (jserror + buffer) \<times> 'w"
  analyzeDocument :: "buffer \<Rightarrow> 'w \<Rightarrow> (jserror + analysis) \<times> 'w"
  uploadFile :: "buffer \<Rightarrow> jsstring \<Rightarrow> jsstring \<Rightarrow> 'w \<Rightarrow> (jserror + upload_result) \<times> 'w"

subsection \<open>Decoding a buffer\<close>

text \<open>
  \<open>buffer.toString('utf-8')\<close> is a primitive of the runtime: it decodes UTF-8 and
  puts U+FFFD in the place of every ill-formed sequence (one for each maximal
  ill-formed part), and it does not throw on any bytes. \<open>utf8_lead\<close> reads the first
  byte of a sequence: a code point to emit, or the number of bytes that must follow,
  the bits read so far and the range allowed for the next byte.
\<close>

datatype lead = Emit nat | Start nat nat byte byte

definition utf8_lead :: "byte \<Rightarrow> lead" where
  "utf8_lead b =
     (if b \<le> 0x7F then Emit (unat b)
      else if 0xC2 \<le> b \<and> b \<le> 0xDF then Start 1 (unat (b AND 0x1F)) 0x80 0xBF
      else if 0xE0 \<le> b \<and> b \<le> 0xEF
        then Start 2 (unat (b AND 0x0F)) (if b = 0xE0 then 0xA0 else 0x80)
               (if b = 0xED then 0x9F else 0xBF)
      else if 0xF0 \<le> b \<and> b \<le> 0xF4
        then Start 3 (unat (b AND 0x07)) (if b = 0xF0 then 0x90 else 0x80)
               (if b = 0xF4 then 0x8F else 0xBF)
      else Emit 0xFFFD)"

fun utf8_go :: "(nat \<times> nat \<times> byte \<times> byte) option \<Rightarrow> buffer \<Rightarrow> nat list" where
  "utf8_go None [] = []"
| "utf8_go (Some p) [] = [0xFFFD]"
| "utf8_go None (b # bs) =
     (case utf8_lead b of
        Emit c \<Rightarrow> c # utf8_go None bs
      | Start n cp lo hi \<Rightarrow> utf8_go (Some (n, cp, lo, hi)) bs)"
| "utf8_go (Some (n, cp, lo, hi)) (b # bs) =
     (if lo \<le> b \<and> b \<le> hi
      then (if n = 1 then (cp * 64 + unat (b AND 0x3F)) # utf8_go None bs
            else utf8_go (Some (n - 1, cp * 64 + unat (b AND 0x3F), 0x80, 0xBF)) bs)
      else 0xFFFD #
        (case utf8_lead b of
           Emit c \<Rightarrow> c # utf8_go None bs
         | Start n' cp' lo' hi' \<Rightarrow> utf8_go (Some (n', cp', lo', hi')) bs))"

text \<open>A code point as UTF-16 code units: a surrogate pair from U+10000 on.\<close>

definition utf16_units :: "nat \<Rightarrow> jsstring" where
  "utf16_units cp =
     (if cp < 0x10000 then [of_nat cp]
      else [0xD800 + of_nat ((cp - 0x10000) div 0x400), 0xDC00 + of_nat ((cp - 0x10000) mod 0x400)])"

datatype encoding = Utf8 | Latin1

text \<open>
  \<open>buffer.toString(encoding)\<close>. With \<open>'latin1'\<close> every byte is one code unit. Neither
  decoding has a branch that throws.
\<close>

definition toString :: "encoding \<Rightarrow> buffer \<Rightarrow> jserror + jsstring" where
  "toString enc buf =
     (case enc of
        Utf8 \<Rightarrow> Inr (concat (map utf16_units (utf8_go None buf)))
      | Latin1 \<Rightarrow> Inr (map ucast buf))"

section \<open>Extraction\<close>

text \<open>
  The value of a metadata property, and the metadata object as the list of its
  properties in the order they were set.
\<close>

datatype mvalue = MString jsstring | MNumber int | MPages "jsstring list"

type_synonym metadata = "(string \<times> mvalue) list"

text \<open>
  What each extractor returns: \<open>{text, confidence, pages, encoding, metadata}\<close>, where
  only the extractor for plain text sets \<open>encoding\<close>.
\<close>

record extraction =
  ex_text :: jsstring
  ex_confidence :: real
  ex_pages :: nat
  ex_encoding :: "jsstring option"
  ex_metadata :: metadata

text \<open>\<open>Math.ceil(text.length / 3000)\<close>\<close>

definition page_estimate :: "jsstring \<Rightarrow> nat" where
  "page_estimate t = nat \<lceil>real (length t) / 3000\<rceil>"

text \<open>
  \<open>extractFromPDFWithOCR\<close>: the body of its \<open>try\<close> builds the placeholder and has
  nothing that throws, so the \<open>catch\<close> is never entered.
\<close>

definition extractFromPDFWithOCR :: "buffer \<Rightarrow> 'w \<Rightarrow> (jserror + extraction) \<times> 'w" where
  "extractFromPDFWithOCR buf w =
     (Inr \<lparr>ex_text = [], ex_confidence = 0, ex_pages = 0, ex_encoding = None,
           ex_metadata = [(''extractionMethod'', MString (str ''ocr-fallback''))]\<rparr>, w)"

definition extractFromPDF :: "'w env \<Rightarrow> buffer \<Rightarrow> 'w \<Rightarrow> (jserror + extraction) \<times> 'w" where
  "extractFromPDF e buf w =
     (case pdf e buf w of
        (Inr data, w') \<Rightarrow>
          (Inr \<lparr>ex_text = pdf_text data, ex_confidence = 0.95, ex_pages = numpages data,
                ex_encoding = None,
                ex_metadata = [(''info'', MString (info data)), (''version'', MString (version data))]\<rparr>,
           w')
      | (Inl err, w') \<Rightarrow> extractFromPDFWithOCR buf w')"

definition extractFromWord :: "'w env \<Rightarrow> buffer \<Rightarrow> 'w \<Rightarrow> (jserror + extraction) \<times> 'w" where
  "extractFromWord e buf w =
     (case extractRawText e buf w of
        (Inr result, w') \<Rightarrow>
          (Inr \<lparr>ex_text = mammoth_value result, ex_confidence = 0.98,
                ex_pages = page_estimate (mammoth_value result), ex_encoding = None,
                ex_metadata = [(''messages'', MString (messages result)),
                               (''extractionMethod'', MString (str ''mammoth''))]\<rparr>,
           w')
      | (Inl err, w') \<Rightarrow> (Inl err, w'))"

text \<open>
  \<open>optimizeImage\<close>: when the image library throws, the \<open>catch\<close> returns the buffer it
  was given.
\<close>

definition optimizeImage :: "'w env \<Rightarrow> buffer \<Rightarrow> 'w \<Rightarrow> (jserror + buffer) \<times> 'w" where
  "optimizeImage e buf w =
     (case sharp_pipeline e buf w of
        (Inr optimized, w') \<Rightarrow> (Inr optimized, w')
      | (Inl err, w') \<Rightarrow> (Inr buf, w'))"

definition extractFromImage :: "'w env \<Rightarrow> buffer \<Rightarrow> 'w \<Rightarrow> (jserror + extraction) \<times> 'w" where
  "extractFromImage e buf w =
     (case optimizeImage e buf w of
        (Inl err, w1) \<Rightarrow> (Inl err, w1)
      | (Inr optimizedBuffer, w1) \<Rightarrow>
          (case analyzeDocument e optimizedBuffer w1 of
             (Inl err, w2) \<Rightarrow> (Inl err, w2)
           | (Inr result, w2) \<Rightarrow>
               (Inr \<lparr>ex_text = analysis_text result,
                     ex_confidence = analysis_confidence result,
                     ex_pages = (if length (analysis_pages result) = 0 then 1
                                 else length (analysis_pages result)),
                     ex_encoding = None,
                     ex_metadata =
                       [(''extractionMethod'', MString (str ''google-vision'')),
                        (''originalSize'', MNumber (int (length buf))),
                        (''optimizedSize'', MNumber (int (length optimizedBuffer))),
                        (''pages'', MPages (analysis_pages result))]\<rparr>,
                w2)))"

text \<open>
  \<open>extractFromText\<close>: the \<open>catch\<close> of the UTF-8 decoding decodes as \<open>'latin1'\<close>; when
  that throws too, the first error is thrown again.
\<close>

definition extractFromText :: "buffer \<Rightarrow> 'w \<Rightarrow> (jserror + extraction) \<times> 'w" where
  "extractFromText buf w =
     (case toString Utf8 buf of
        Inr t \<Rightarrow>
          (Inr \<lparr>ex_text = t, ex_confidence = 1.0, ex_pages = page_estimate t,
                ex_encoding = Some (str ''UTF-8''),
                ex_metadata = [(''extractionMethod'', MString (str ''direct'')),
                               (''originalEncoding'', MString (str ''UTF-8''))]\<rparr>, w)
      | Inl err \<Rightarrow>
          (case toString Latin1 buf of
             Inr t \<Rightarrow>
               (Inr \<lparr>ex_text = t, ex_confidence = 0.9, ex_pages = page_estimate t,
                     ex_encoding = Some (str ''latin1''),
                     ex_metadata = [(''extractionMethod'', MString (str ''direct-fallback'')),
                                    (''originalEncoding'', MString (str ''latin1''))]\<rparr>, w)
           | Inl fallbackError \<Rightarrow> (Inl err, w)))"

text \<open>
  \<open>type.split('/')[1]\<close>: the second piece, and \<open>undefined\<close> when there is none, which
  \<open>includes\<close> then reads as the string \<^verbatim>\<open>undefined\<close>.
\<close>

definition subtype :: "jsstring \<Rightarrow> jsstring" where
  "subtype t = (case split_char 0x2F t of a # b # rest \<Rightarrow> b | _ \<Rightarrow> str ''undefined'')"

text \<open>
  The four tests of \<open>extractText\<close>, in its order, on the lower-cased mime type.
\<close>

datatype category = PDF | Word | Image | PlainText

definition classify :: "jsstring \<Rightarrow> category option" where
  "classify mimeType =
     (if mimeType \<in> set SUPPORTED_pdf then Some PDF
      else if mimeType \<in> set SUPPORTED_doc then Some Word
      else if list_ex (\<lambda>type. includes_str mimeType (subtype type)) SUPPORTED_image then Some Image
      else if mimeType \<in> set SUPPORTED_text then Some PlainText
      else None)"

definition extractText :: "'w env \<Rightarrow> jsfile \<Rightarrow> 'w \<Rightarrow> (jserror + extraction) \<times> 'w" where
  "extractText e f w =
     (let mimeType = toLowerCase (mimetype f) in
      case classify mimeType of
        Some PDF \<Rightarrow> extractFromPDF e (buffer f) w
      | Some Word \<Rightarrow> extractFromWord e (buffer f) w
      | Some Image \<Rightarrow> extractFromImage e (buffer f) w
      | Some PlainText \<Rightarrow> extractFromText (buffer f) w
      | None \<Rightarrow> (Inl (UnsupportedExtraction mimeType), w))"

section \<open>Processing one document\<close>

record processed_document =
  documentId :: jsstring
  originalName :: jsstring
  mimeType :: jsstring
  doc_size :: int
  uploadUrl :: jsstring
  extractedText :: jsstring
  confidence :: real
  pages :: nat
  wordCount :: nat
  processingTime :: int
  metadata :: metadata

text \<open>
  Setting a property of an object: a property that is there keeps its place and takes
  the new value, a new one is added at the end. \<open>spread\<close> is \<open>{...base, ...extra}\<close>.
\<close>

fun set_prop :: "string \<Rightarrow> mvalue \<Rightarrow> metadata \<Rightarrow> metadata" where
  "set_prop k v [] = [(k, v)]"
| "set_prop k v ((k', v') # m) = (if k = k' then (k, v) # m else (k', v') # set_prop k v m)"

definition spread :: "metadata \<Rightarrow> metadata \<Rightarrow> metadata" where
  "spread base extra = foldl (\<lambda>m kv. set_prop (fst kv) (snd kv) m) base extra"

text \<open>
  The object built by \<open>processDocument\<close> from the extraction result, the upload result
  and the values read from the clock; \<open>x || y\<close> is \<open>y\<close> when \<open>x\<close> is \<open>0\<close>,
  \<open>undefined\<close> or the empty string.
\<close>

definition assemble ::
  "jsstring \<Rightarrow> jsfile \<Rightarrow> upload_result \<Rightarrow> extraction \<Rightarrow> int \<Rightarrow> jsstring \<Rightarrow> processed_document" where
  "assemble docId f uploadResult extractionResult time createdAt =
     \<lparr>documentId = docId,
      originalName = originalname f,
      mimeType = mimetype f,
      doc_size = file_size f,
      uploadUrl = url uploadResult,
      extractedText = ex_text extractionResult,
      confidence = ex_confidence extractionResult,
      pages = (if ex_pages extractionResult = 0 then 1 else ex_pages extractionResult),
      wordCount = countWords (ex_text extractionResult),
      processingTime = time,
      metadata = spread
        [(''language'', MString (detectLanguage (ex_text extractionResult))),
         (''encoding'', MString (case ex_encoding extractionResult of
                                   None \<Rightarrow> str ''UTF-8''
                                 | Some enc \<Rightarrow> (if enc = [] then str ''UTF-8'' else enc))),
         (''createdAt'', MString createdAt)]
        (ex_metadata extractionResult)\<rparr>"

text \<open>
  \<open>processDocument(file)\<close>: every error thrown inside its \<open>try\<close> is thrown again as
  \<open>Document processing failed: ...\<close>. An invalid validation result always carries its
  error; \<open>new Error(undefined)\<close> has the empty message. For a missing file the first
  statement of the \<open>try\<close> reads \<open>file.originalname\<close> and throws; the \<open>catch\<close> reads
  \<open>file.originalname\<close> for its log line before it wraps the error, so that it throws
  the same \<open>TypeError\<close> itself and nothing is wrapped.
\<close>

definition processDocument ::
  "'w env \<Rightarrow> config \<Rightarrow> jsfile option \<Rightarrow> 'w \<Rightarrow> (jserror + processed_document) \<times> 'w" where
  "processDocument e cfg fileopt w0 =
     (case uuidv4 e w0 of (docId, w1) \<Rightarrow>
      case Date_now e w1 of (startTime, w2) \<Rightarrow>
      case fileopt of
        None \<Rightarrow> (Inl (CannotReadProperty ''originalname''), w2)
      | Some f \<Rightarrow>
          let validation = validateFile cfg (Some f) in
          if \<not> isValid validation
          then (Inl (DocumentProcessingFailed
                      (case error validation of Some err \<Rightarrow> err | None \<Rightarrow> External [])), w2)
          else
            (case extractText e f w2 of
               (Inl err, w3) \<Rightarrow> (Inl (DocumentProcessingFailed err), w3)
             | (Inr extractionResult, w3) \<Rightarrow>
                 (case uploadFile e (buffer f) (originalname f) (mimetype f) w3 of
                    (Inl err, w4) \<Rightarrow> (Inl (DocumentProcessingFailed err), w4)
                  | (Inr uploadResult, w4) \<Rightarrow>
                      (case Date_now e w4 of (endTime, w5) \<Rightarrow>
                       case toISOString e w5 of (createdAt, w6) \<Rightarrow>
                         (Inr (assemble docId f uploadResult extractionResult
                                 (endTime - startTime) createdAt), w6)))))"

section \<open>Batch processing\<close>

record failure =
  fileName :: jsstring
  error_message :: jserror

record batch_result =
  successful :: "processed_document list"
  failed :: "failure list"
  totalProcessed :: nat
  successRate :: jsnum

text \<open>
  The \<open>for\<close> loop of \<open>processDocuments\<close> over the files that are left, with the two
  arrays \<open>results\<close> and \<open>errors\<close> it pushes to. The \<open>catch\<close> of the loop reads
  \<open>file.originalname\<close>: for a missing file that throws outside every \<open>try\<close>, the loop
  ends there and \<open>processDocuments\<close> throws the \<open>TypeError\<close>.
\<close>

fun batch_loop ::
  "'w env \<Rightarrow> config \<Rightarrow> jsfile option list \<Rightarrow> processed_document list \<Rightarrow> failure list \<Rightarrow> 'w \<Rightarrow>
   (jserror + processed_document list \<times> failure list) \<times> 'w" where
  "batch_loop e cfg [] results errors w = (Inr (results, errors), w)"
| "batch_loop e cfg (fileopt # files) results errors w =
     (case processDocument e cfg fileopt w of
        (Inr result, w') \<Rightarrow> batch_loop e cfg files (results @ [result]) errors w'
      | (Inl err, w') \<Rightarrow>
          (case fileopt of
             None \<Rightarrow> (Inl (CannotReadProperty ''originalname''), w')
           | Some f \<Rightarrow>
               batch_loop e cfg files results
                 (errors @ [\<lparr>fileName = originalname f, error_message = err\<rparr>]) w'))"

definition processDocuments ::
  "'w env \<Rightarrow> config \<Rightarrow> jsfile option list \<Rightarrow> 'w \<Rightarrow> (jserror + batch_result) \<times> 'w" where
  "processDocuments e cfg files w =
     (case batch_loop e cfg files [] [] w of
        (Inl err, w') \<Rightarrow> (Inl err, w')
      | (Inr (results, errors), w') \<Rightarrow>
          (Inr \<lparr>successful = results,
                failed = errors,
                totalProcessed = length files,
                successRate = js_times (js_div (length results) (length files)) 100\<rparr>, w'))"

section \<open>The word count in the words of the specification\<close>

text \<open>
  Following the specification, not the code: "split on whitespace, drop empty tokens,
  count". \<open>pieces\<close> cuts the text at every single white-space character, so two of
  them in a row have an empty piece between them.
\<close>

fun pieces :: "jsstring \<Rightarrow> jsstring list" where
  "pieces [] = [[]]"
| "pieces (c # cs) =
     (if is_ws c then [] # pieces cs
      else (case pieces cs of
              [] \<Rightarrow> [[c]]
            | t # ts \<Rightarrow> (c # t) # ts))"

definition spec_wordCount :: "jsstring \<Rightarrow> nat" where
  "spec_wordCount text = length (filter (\<lambda>t. t \<noteq> []) (pieces text))"

section \<open>A small outside world to run the processor in\<close>

text \<open>
  The state is a counter that the clock and the id generator advance. The PDF parser
  and the image library fail on the empty buffer; the document analysis fails on three
  bytes or more, and otherwise reads the bytes as text and reports no page.
\<close>

definition demo_env :: "nat env" where
  "demo_env =
     \<lparr>uuidv4 = (\<lambda>w. ([of_nat w], Suc w)),
      Date_now = (\<lambda>w. (int w, Suc w)),
      toISOString = (\<lambda>w. (str ''now'', w)),
      pdf = (\<lambda>buf w. (if buf = [] then Inl (External (str ''bad pdf''))
                        else Inr \<lparr>pdf_text = map ucast buf, numpages = 2, info = [], version = []\<rparr>, w)),
      extractRawText = (\<lambda>buf w. (Inr \<lparr>mammoth_value = map ucast buf, messages = []\<rparr>, w)),
      sharp_pipeline = (\<lambda>buf w. (if buf = [] then Inl (External (str ''bad image''))
                                   else Inr (buf @ [0]), Suc w)),
      analyzeDocument = (\<lambda>buf w. (if length buf \<ge> 3 then Inl (External (str ''too large''))
                                    else Inr \<lparr>analysis_text = map ucast buf,
                                              analysis_confidence = 0.5, analysis_pages = []\<rparr>,
                                    Suc w)),
      uploadFile = (\<lambda>buf name mt w. (Inr \<lparr>url = name\<rparr>, w))\<rparr>"

definition demo_config :: config where
  "demo_config = \<lparr>MAX_FILE_SIZE_MB = None, ALLOWED_FILE_TYPES = None\<rparr>"

definition demo_file :: "string \<Rightarrow> string \<Rightarrow> buffer \<Rightarrow> jsfile" where
  "demo_file name mt buf =
     \<lparr>originalname = str name, mimetype = str mt, file_size = int (length buf), buffer = buf\<rparr>"

section \<open>Running the model on concrete inputs\<close>

lemma page_estimate_div: "page_estimate t = (length t + 2999) div 3000"
proof -
  have "\<lceil>real (length t) / 3000\<rceil> = - (- int (length t) div 3000)"
    using ceiling_divide_eq_div [of "int (length t)" 3000, where ?'a = real] by simp
  moreover have "- (- int (length t) div 3000) = int ((length t + 2999) div 3000)"
    by (simp add: zdiv_int)
  ultimately show ?thesis unfolding page_estimate_def by simp
qed

lemmas run_defs =
  processDocument_def demo_env_def demo_config_def demo_file_def
  validateFile_def maxSize_def isTypeSupported_def SUPPORTED_flat_def SUPPORTED_pdf_def
  SUPPORTED_doc_def SUPPORTED_image_def SUPPORTED_text_def str_def startsWith_def
  extractText_def classify_def toLowerCase_def subtype_def extractFromText_def
  extractFromPDF_def extractFromPDFWithOCR_def extractFromWord_def extractFromImage_def
  optimizeImage_def toString_def utf8_lead_def utf16_units_def page_estimate_div
  assemble_def countWords_def trim_def split_ws_def is_ws_def Let_def

lemma result_collapse: "\<not> isl (fst p) \<Longrightarrow> p = (Inr (projr (fst p)), snd p)"
  by (cases p) (auto simp: isl_def)

section \<open>Word count\<close>

lemma pieces_nonempty: "pieces s \<noteq> []"
  by (induction s) (auto split: list.splits)

lemma split_go_pieces:
  "(inws \<longrightarrow> cur = []) \<Longrightarrow>
   filter (\<lambda>t. t \<noteq> []) (split_go inws cur s) =
   filter (\<lambda>t. t \<noteq> []) (case pieces s of [] \<Rightarrow> [cur] | t # ts \<Rightarrow> (cur @ t) # ts)"
proof (induction s arbitrary: inws cur)
  case Nil
  then show ?case by simp
next
  case (Cons c cs)
  show ?case
  proof (cases "is_ws c")
    case True
    have ih: "filter (\<lambda>t. t \<noteq> []) (split_go True [] cs) = filter (\<lambda>t. t \<noteq> []) (pieces cs)"
      using Cons.IH [of True "[]"] pieces_nonempty [of cs]
      by (simp split: list.splits)
    show ?thesis using True Cons.prems ih by simp
  next
    case False
    obtain t ts where p: "pieces cs = t # ts"
      using pieces_nonempty [of cs] by (cases "pieces cs") auto
    show ?thesis using False Cons.IH [of False "cur @ [c]"] p by simp
  qed
qed

lemma words_split_ws:
  "filter (\<lambda>t. t \<noteq> []) (split_ws s) = filter (\<lambda>t. t \<noteq> []) (pieces s)"
  using split_go_pieces [of False "[]" s] pieces_nonempty [of s]
  by (simp add: split_ws_def split: list.splits)

lemma pieces_dropWhile:
  "filter (\<lambda>t. t \<noteq> []) (pieces (dropWhile is_ws s)) = filter (\<lambda>t. t \<noteq> []) (pieces s)"
  by (induction s) simp_all

lemma pieces_snoc_ws: "is_ws c \<Longrightarrow> pieces (s @ [c]) = pieces s @ [[]]"
proof (induction s)
  case Nil
  then show ?case by simp
next
  case (Cons a s)
  then show ?case using pieces_nonempty [of s] by (auto split: list.splits)
qed

lemma pieces_trim_end:
  "filter (\<lambda>t. t \<noteq> []) (pieces (rev (dropWhile is_ws (rev s)))) =
   filter (\<lambda>t. t \<noteq> []) (pieces s)"
proof (induction s rule: rev_induct)
  case Nil
  then show ?case by simp
next
  case (snoc x xs)
  then show ?case by (simp add: pieces_snoc_ws)
qed

lemma words_trim:
  "filter (\<lambda>t. t \<noteq> []) (pieces (trim s)) = filter (\<lambda>t. t \<noteq> []) (pieces s)"
  by (simp add: trim_def pieces_trim_end pieces_dropWhile)

lemma countWords_spec: "countWords text = spec_wordCount text"
  by (simp add: countWords_def spec_wordCount_def words_split_ws words_trim)

lemma processDocument_assembled:
  assumes "processDocument e cfg fileopt w = (Inr doc, w')"
  shows "\<exists>f docId up er t created w2 w3.
           fileopt = Some f \<and> extractText e f w2 = (Inr er, w3)
           \<and> doc = assemble docId f up er t created"
  using assms unfolding processDocument_def
  by (auto simp: Let_def split: prod.splits if_splits sum.splits option.splits) blast

text \<open>
  C6. For every string, \<open>countWords\<close> is the number of non-empty pieces that the text
  falls into when it is cut at white space: the trimming, the cutting at runs of white
  space and the test for the empty string in the code do not change that number.
  \<open>countWords("")\<close> is 0, \<open>countWords("a  b\tc")\<close> is 3, and the \<open>wordCount\<close> of every
  document that \<open>processDocument\<close> returns is that number for its \<open>extractedText\<close>.
\<close>

theorem countWords_counts_tokens:
  "countWords text = spec_wordCount text
   \<and> countWords [] = 0
   \<and> countWords (str ''a  b'' @ [0x09] @ str ''c'') = 3
   \<and> (processDocument e cfg fileopt w = (Inr doc, w') \<longrightarrow>
        wordCount doc = spec_wordCount (extractedText doc))"
proof (intro conjI impI)
  show "countWords text = spec_wordCount text" by (rule countWords_spec)
  show "countWords [] = 0" by (simp add: countWords_def)
  show "countWords (str ''a  b'' @ [0x09] @ str ''c'') = 3"
    by (simp add: countWords_def str_def trim_def split_ws_def is_ws_def)
next
  assume "processDocument e cfg fileopt w = (Inr doc, w')"
  from processDocument_assembled [OF this]
  obtain f docId up er t created where "doc = assemble docId f up er t created"
    by blast
  then show "wordCount doc = spec_wordCount (extractedText doc)"
    by (simp add: assemble_def countWords_spec)
qed

theorem countWords_counts_tokens_witness:
  "\<not> isl (fst (processDocument demo_env demo_config
                 (Some (demo_file ''a.txt'' ''text/plain'' [0x68, 0x69, 0x20, 0x79, 0x6F])) 0))
   \<and> wordCount (projr (fst (processDocument demo_env demo_config
                 (Some (demo_file ''a.txt'' ''text/plain'' [0x68, 0x69, 0x20, 0x79, 0x6F])) 0)))
     = spec_wordCount (extractedText (projr (fst (processDocument demo_env demo_config
                 (Some (demo_file ''a.txt'' ''text/plain'' [0x68, 0x69, 0x20, 0x79, 0x6F])) 0))))
   \<and> wordCount (projr (fst (processDocument demo_env demo_config
                 (Some (demo_file ''a.txt'' ''text/plain'' [0x68, 0x69, 0x20, 0x79, 0x6F])) 0))) = 2"
proof -
  let ?p = "processDocument demo_env demo_config
              (Some (demo_file ''a.txt'' ''text/plain'' [0x68, 0x69, 0x20, 0x79, 0x6F])) 0"
  have ok: "\<not> isl (fst ?p)" and n: "wordCount (projr (fst ?p)) = 2"
    by (simp_all add: run_defs)
  have "?p = (Inr (projr (fst ?p)), snd ?p)"
    using ok by (rule result_collapse)
  then have "wordCount (projr (fst ?p)) = spec_wordCount (extractedText (projr (fst ?p)))"
    using countWords_counts_tokens [of _ demo_env demo_config
        "Some (demo_file ''a.txt'' ''text/plain'' [0x68, 0x69, 0x20, 0x79, 0x6F])" 0
        "projr (fst ?p)" "snd ?p"]
    by blast
  then show ?thesis using ok n by blast
qed

section \<open>Batches\<close>

lemma batch_loop_acc:
  "batch_loop e cfg files rs es w =
     (case batch_loop e cfg files [] [] w of
        (Inl err, w') \<Rightarrow> (Inl err, w')
      | (Inr (rs', es'), w') \<Rightarrow> (Inr (rs @ rs', es @ es'), w'))"
proof (induction files arbitrary: rs es w)
  case Nil
  then show ?case by simp
next
  case (Cons fo files)
  obtain r w1 where p: "processDocument e cfg fo w = (r, w1)"
    by (cases "processDocument e cfg fo w")
  show ?case
  proof (cases r)
    case (Inr d)
    show ?thesis
      using p Inr Cons.IH [of "rs @ [d]" es w1] Cons.IH [of "[d]" "[]" w1]
      by (simp split: prod.splits sum.splits)
  next
    case (Inl err)
    show ?thesis
    proof (cases fo)
      case None
      then show ?thesis using p Inl by simp
    next
      case (Some f)
      show ?thesis
        using p Inl Some
          Cons.IH [of rs "es @ [\<lparr>fileName = originalname f, error_message = err\<rparr>]" w1]
          Cons.IH [of "[]" "[\<lparr>fileName = originalname f, error_message = err\<rparr>]" w1]
        by (simp split: prod.splits sum.splits)
    qed
  qed
qed

text \<open>A batch in which no file is missing runs to its end, with one entry for each file.\<close>

lemma batch_loop_present:
  "\<exists>rs es w'. batch_loop e cfg (map Some fs) [] [] w = (Inr (rs, es), w')
       \<and> length rs + length es = length fs"
proof (induction fs arbitrary: w)
  case Nil
  then show ?case by simp
next
  case (Cons f fs)
  obtain r w1 where p: "processDocument e cfg (Some f) w = (r, w1)"
    by (cases "processDocument e cfg (Some f) w")
  from Cons.IH [of w1] obtain rs es w' where
    ih: "batch_loop e cfg (map Some fs) [] [] w1 = (Inr (rs, es), w')"
      "length rs + length es = length fs"
    by blast
  show ?case
  proof (cases r)
    case (Inr d)
    have "batch_loop e cfg (map Some (f # fs)) [] [] w = (Inr (d # rs, es), w')"
      using p Inr ih(1) batch_loop_acc [of e cfg "map Some fs" "[d]" "[]" w1] by simp
    then show ?thesis using ih(2) by simp
  next
    case (Inl err)
    have "batch_loop e cfg (map Some (f # fs)) [] [] w
        = (Inr (rs, \<lparr>fileName = originalname f, error_message = err\<rparr> # es), w')"
      using p Inl ih(1)
        batch_loop_acc [of e cfg "map Some fs" "[]"
          "[\<lparr>fileName = originalname f, error_message = err\<rparr>]" w1]
      by simp
    then show ?thesis using ih(2) by simp
  qed
qed

lemma processDocuments_present:
  "\<exists>r w'. processDocuments e cfg (map Some fs) w = (Inr r, w')
     \<and> length (successful r) + length (failed r) = length fs
     \<and> totalProcessed r = length fs
     \<and> (fs \<noteq> [] \<longrightarrow>
          successRate r = Num (real (length (successful r)) / real (length fs) * 100))"
proof -
  from batch_loop_present [of e cfg fs w] obtain rs es w' where
    "batch_loop e cfg (map Some fs) [] [] w = (Inr (rs, es), w')"
    "length rs + length es = length fs"
    by blast
  then show ?thesis
    by (simp add: processDocuments_def js_div_def js_times_def)
qed

text \<open>
  In such a batch a file that fails adds its name and error to \<open>failed\<close>, a file that
  succeeds adds its document to \<open>successful\<close>, and the files after it are processed as
  the batch of them alone is, from the state that the file left.
\<close>

lemma processDocuments_after_failure:
  assumes "processDocument e cfg (Some f) w = (Inl err, w1)"
    and "processDocuments e cfg files w1 = (Inr r, w2)"
  shows "\<exists>r'. processDocuments e cfg (Some f # files) w = (Inr r', w2)
     \<and> successful r' = successful r
     \<and> failed r' = \<lparr>fileName = originalname f, error_message = err\<rparr> # failed r
     \<and> totalProcessed r' = Suc (totalProcessed r)"
  using assms
    batch_loop_acc [of e cfg files "[]" "[\<lparr>fileName = originalname f, error_message = err\<rparr>]" w1]
  by (auto simp: processDocuments_def split: prod.splits sum.splits)

lemma processDocuments_after_success:
  assumes "processDocument e cfg fileopt w = (Inr d, w1)"
    and "processDocuments e cfg files w1 = (Inr r, w2)"
  shows "\<exists>r'. processDocuments e cfg (fileopt # files) w = (Inr r', w2)
     \<and> successful r' = d # successful r
     \<and> failed r' = failed r
     \<and> totalProcessed r' = Suc (totalProcessed r)"
  using assms batch_loop_acc [of e cfg files "[d]" "[]" w1]
  by (auto simp: processDocuments_def split: prod.splits sum.splits)

text \<open>
  C1. On the empty list of files the loop does nothing and \<open>successRate\<close> is
  \<open>(0 / 0) * 100\<close>, which is \<open>NaN\<close> and not 0; \<open>totalProcessed\<close> is 0. (For a list that
  is not empty and has no missing file the three equations of the claim hold:
  \<open>processDocuments_present\<close>.)
\<close>

theorem processDocuments_empty_rate:
  "processDocuments e cfg [] w =
     (Inr \<lparr>successful = [], failed = [], totalProcessed = 0, successRate = NaN\<rparr>, w)
   \<and> successRate (projr (fst (processDocuments e cfg [] w))) = NaN
   \<and> successRate (projr (fst (processDocuments e cfg [] w))) \<noteq> Num 0
   \<and> totalProcessed (projr (fst (processDocuments e cfg [] w))) = 0"
  by (simp add: processDocuments_def js_div_def js_times_def)

text \<open>
  C4. A missing file in a batch ends the batch. \<open>processDocument\<close> throws the
  \<open>TypeError\<close> for \<open>file.originalname\<close> from its own \<open>catch\<close>, the \<open>catch\<close> of the loop
  reads \<open>file.originalname\<close> too and throws it again, and \<open>processDocuments\<close> throws:
  there is no result, no entry for the missing file, and the files after it are not
  processed. In the batch of a text file, a missing file and a PDF below, the PDF
  would have been processed from the state in which the batch ended.
\<close>

theorem missing_file_aborts_batch:
  "processDocument e cfg None w =
     (Inl (CannotReadProperty ''originalname''), snd (Date_now e (snd (uuidv4 e w))))
   \<and> processDocuments e cfg (None # files) w =
     (Inl (CannotReadProperty ''originalname''), snd (Date_now e (snd (uuidv4 e w))))
   \<and> processDocuments demo_env demo_config
       [Some (demo_file ''a.txt'' ''text/plain'' [0x68]), None,
        Some (demo_file ''a.pdf'' ''application/pdf'' [])] 0
     = (Inl (CannotReadProperty ''originalname''), 5)
   \<and> \<not> isl (fst (processDocument demo_env demo_config
                   (Some (demo_file ''a.pdf'' ''application/pdf'' [])) 5))"
proof (intro conjI)
  show n: "processDocument e cfg None w =
     (Inl (CannotReadProperty ''originalname''), snd (Date_now e (snd (uuidv4 e w))))"
    by (simp add: processDocument_def split: prod.splits)
  show "processDocuments e cfg (None # files) w =
     (Inl (CannotReadProperty ''originalname''), snd (Date_now e (snd (uuidv4 e w))))"
    using n by (simp add: processDocuments_def)
  show "processDocuments demo_env demo_config
       [Some (demo_file ''a.txt'' ''text/plain'' [0x68]), None,
        Some (demo_file ''a.pdf'' ''application/pdf'' [])] 0
     = (Inl (CannotReadProperty ''originalname''), 5)"
    by (simp add: processDocuments_def run_defs)
  show "\<not> isl (fst (processDocument demo_env demo_config
                   (Some (demo_file ''a.pdf'' ''application/pdf'' [])) 5))"
    by (simp add: run_defs)
qed

text \<open>
  The batch of three files of which the second has a type that is not supported: two
  documents, one failure, \<open>totalProcessed\<close> 3 and \<open>successRate\<close> 200/3.
\<close>

lemma three_files_one_failure:
  "\<not> isl (fst (processDocuments demo_env demo_config
        [Some (demo_file ''a.txt'' ''text/plain'' [0x68]),
         Some (demo_file ''a.zip'' ''application/zip'' [0x68]),
         Some (demo_file ''a.pdf'' ''application/pdf'' [])] 0))
   \<and> length (successful (projr (fst (processDocuments demo_env demo_config
        [Some (demo_file ''a.txt'' ''text/plain'' [0x68]),
         Some (demo_file ''a.zip'' ''application/zip'' [0x68]),
         Some (demo_file ''a.pdf'' ''application/pdf'' [])] 0)))) = 2
   \<and> map fileName (failed (projr (fst (processDocuments demo_env demo_config
        [Some (demo_file ''a.txt'' ''text/plain'' [0x68]),
         Some (demo_file ''a.zip'' ''application/zip'' [0x68]),
         Some (demo_file ''a.pdf'' ''application/pdf'' [])] 0)))) = [str ''a.zip'']
   \<and> totalProcessed (projr (fst (processDocuments demo_env demo_config
        [Some (demo_file ''a.txt'' ''text/plain'' [0x68]),
         Some (demo_file ''a.zip'' ''application/zip'' [0x68]),
         Some (demo_file ''a.pdf'' ''application/pdf'' [])] 0))) = 3
   \<and> successRate (projr (fst (processDocuments demo_env demo_config
        [Some (demo_file ''a.txt'' ''text/plain'' [0x68]),
         Some (demo_file ''a.zip'' ''application/zip'' [0x68]),
         Some (demo_file ''a.pdf'' ''application/pdf'' [])] 0))) = Num (200 / 3)"
  by (simp add: processDocuments_def js_div_def js_times_def run_defs)

section \<open>Validation and classification\<close>

lemma isTypeSupported_iff:
  "isTypeSupported m \<longleftrightarrow> (\<exists>t \<in> set SUPPORTED_flat. m = t \<or> startsWith m t)"
  by (simp add: isTypeSupported_def list_ex_iff)

text \<open>
  C7. \<open>validateFile\<close> is a function of the configuration and the file only: it reads
  no state and changes none. Its checks come in this order. Without a file object the
  result is \<open>No file provided\<close>. A file larger than \<open>maxSize\<close> is refused for its
  size, whatever its type. A file within the size whose mime type neither equals nor
  starts with an entry of the table is refused for its type. Every other file is
  valid. Without \<open>MAX_FILE_SIZE_MB\<close> the limit is 50 MB.
\<close>

theorem validateFile_checks_in_order:
  "validateFile cfg None = \<lparr>isValid = False, error = Some NoFileProvided\<rparr>
   \<and> (file_size f > maxSize cfg \<longrightarrow>
        validateFile cfg (Some f) =
          \<lparr>isValid = False, error = Some (FileSizeTooLarge (maxSize cfg div (1024 * 1024)))\<rparr>)
   \<and> (file_size f \<le> maxSize cfg
        \<and> (\<forall>t \<in> set SUPPORTED_flat. mimetype f \<noteq> t \<and> \<not> startsWith (mimetype f) t) \<longrightarrow>
        validateFile cfg (Some f) =
          \<lparr>isValid = False, error = Some (UnsupportedFileType (mimetype f) (allowedTypes cfg))\<rparr>)
   \<and> (file_size f \<le> maxSize cfg
        \<and> (\<exists>t \<in> set SUPPORTED_flat. mimetype f = t \<or> startsWith (mimetype f) t) \<longrightarrow>
        validateFile cfg (Some f) = \<lparr>isValid = True, error = None\<rparr>)
   \<and> (MAX_FILE_SIZE_MB cfg = None \<longrightarrow> maxSize cfg = 50 * 1024 * 1024)"
  by (auto simp: validateFile_def isTypeSupported_iff maxSize_def)

theorem validateFile_checks_in_order_witness:
  "validateFile demo_config (Some \<lparr>originalname = str ''big.pdf'', mimetype = str ''application/pdf'',
       file_size = 52428801, buffer = []\<rparr>)
     = \<lparr>isValid = False, error = Some (FileSizeTooLarge 50)\<rparr>
   \<and> validateFile demo_config (Some \<lparr>originalname = str ''a.zip'', mimetype = str ''application/zip'',
       file_size = 52428800, buffer = []\<rparr>)
     = \<lparr>isValid = False, error = Some (UnsupportedFileType (str ''application/zip'')
           (map str [''pdf'', ''doc'', ''docx'', ''txt'', ''jpg'', ''jpeg'', ''png'']))\<rparr>
   \<and> validateFile demo_config (Some \<lparr>originalname = str ''a.png'', mimetype = str ''image/png'',
       file_size = 52428800, buffer = []\<rparr>)
     = \<lparr>isValid = True, error = None\<rparr>
   \<and> maxSize demo_config = 52428800"
proof -
  let ?big = "\<lparr>originalname = str ''big.pdf'', mimetype = str ''application/pdf'',
       file_size = 52428801, buffer = []\<rparr>"
  let ?zip = "\<lparr>originalname = str ''a.zip'', mimetype = str ''application/zip'',
       file_size = 52428800, buffer = []\<rparr>"
  let ?png = "\<lparr>originalname = str ''a.png'', mimetype = str ''image/png'',
       file_size = 52428800, buffer = []\<rparr>"
  have m: "MAX_FILE_SIZE_MB demo_config = None" by (simp add: demo_config_def)
  note v = validateFile_checks_in_order [of demo_config]
  have ms: "maxSize demo_config = 52428800"
    using v [of ?big, THEN conjunct2, THEN conjunct2, THEN conjunct2, THEN conjunct2] m by simp
  have a: "allowedTypes demo_config = map str [''pdf'', ''doc'', ''docx'', ''txt'', ''jpg'', ''jpeg'', ''png'']"
    by (simp add: allowedTypes_def demo_config_def)
  have big: "file_size ?big > maxSize demo_config" using ms by simp
  have zip: "file_size ?zip \<le> maxSize demo_config
        \<and> (\<forall>t \<in> set SUPPORTED_flat. mimetype ?zip \<noteq> t \<and> \<not> startsWith (mimetype ?zip) t)"
    using ms by (simp add: SUPPORTED_flat_def SUPPORTED_pdf_def SUPPORTED_doc_def
        SUPPORTED_image_def SUPPORTED_text_def str_def startsWith_def)
  have png: "file_size ?png \<le> maxSize demo_config
        \<and> (\<exists>t \<in> set SUPPORTED_flat. mimetype ?png = t \<or> startsWith (mimetype ?png) t)"
    using ms by (simp add: SUPPORTED_flat_def SUPPORTED_pdf_def SUPPORTED_doc_def
        SUPPORTED_image_def SUPPORTED_text_def str_def startsWith_def)
  show ?thesis
    using v [of ?big, THEN conjunct2, THEN conjunct1, THEN mp, OF big]
      v [of ?zip, THEN conjunct2, THEN conjunct2, THEN conjunct1, THEN mp, OF zip]
      v [of ?png, THEN conjunct2, THEN conjunct2, THEN conjunct2, THEN conjunct1, THEN mp, OF png]
      ms a
    by simp
qed

text \<open>
  C2. The validator takes a mime type that only starts with an entry of the table,
  but \<open>extractText\<close> compares the PDF, Word and plain-text entries for equality. The
  file below, of type \<^verbatim>\<open>text/plain; charset=utf-8\<close>, is valid, matches none of the four
  tests and reaches the error \<open>Unsupported file type\<close> of \<open>extractText\<close>, in every
  environment.
\<close>

theorem validated_type_not_extracted:
  "isValid (validateFile demo_config (Some (demo_file ''notes.txt'' ''text/plain; charset=utf-8'' [0x68, 0x69])))
   \<and> startsWith (str ''text/plain; charset=utf-8'') (str ''text/plain'')
   \<and> classify (toLowerCase (str ''text/plain; charset=utf-8'')) = None
   \<and> extractText e (demo_file ''notes.txt'' ''text/plain; charset=utf-8'' [0x68, 0x69]) w
       = (Inl (UnsupportedExtraction (str ''text/plain; charset=utf-8'')), w)"
  by (simp add: run_defs)

lemma classify_registered: "m \<in> set SUPPORTED_flat \<Longrightarrow> classify (toLowerCase m) \<noteq> None"
  by (auto simp: SUPPORTED_flat_def SUPPORTED_pdf_def SUPPORTED_doc_def SUPPORTED_image_def
      SUPPORTED_text_def classify_def toLowerCase_def str_def subtype_def startsWith_def)

section \<open>Extractors\<close>

text \<open>
  C3. \<open>extractFromPDF\<close> never throws. When the PDF parser throws, the result is the
  placeholder with the empty text, confidence 0 and 0 pages, whose metadata has
  \<open>extractionMethod\<close> set to \<^verbatim>\<open>ocr-fallback\<close>. When the parser returns, the result has
  the text of the parser, confidence 0.95, its page count, and no \<open>extractionMethod\<close>,
  so that a parsed document without text is told apart from the placeholder.
\<close>

theorem extractFromPDF_fallback:
  "(\<exists>r w'. extractFromPDF e buf w = (Inr r, w'))
   \<and> (pdf e buf w = (Inl err, w') \<longrightarrow>
        extractFromPDF e buf w =
          (Inr \<lparr>ex_text = [], ex_confidence = 0, ex_pages = 0, ex_encoding = None,
                ex_metadata = [(''extractionMethod'', MString (str ''ocr-fallback''))]\<rparr>, w'))
   \<and> (pdf e buf w = (Inr data, w') \<longrightarrow>
        (\<exists>r. extractFromPDF e buf w = (Inr r, w')
           \<and> ex_text r = pdf_text data
           \<and> ex_confidence r = 0.95
           \<and> ex_pages r = numpages data
           \<and> map_of (ex_metadata r) ''extractionMethod'' = None))"
  by (cases "pdf e buf w"; cases "fst (pdf e buf w)")
     (auto simp: extractFromPDF_def extractFromPDFWithOCR_def)

theorem extractFromPDF_fallback_witness:
  "pdf demo_env [] 0 = (Inl (External (str ''bad pdf'')), 0)
   \<and> extractFromPDF demo_env [] 0 =
          (Inr \<lparr>ex_text = [], ex_confidence = 0, ex_pages = 0, ex_encoding = None,
                ex_metadata = [(''extractionMethod'', MString (str ''ocr-fallback''))]\<rparr>, 0)
   \<and> pdf demo_env [0x25] 0 = (Inr \<lparr>pdf_text = [0x25], numpages = 2, info = [], version = []\<rparr>, 0)
   \<and> ex_confidence (projr (fst (extractFromPDF demo_env [0x25] 0))) = 0.95
   \<and> ex_pages (projr (fst (extractFromPDF demo_env [0x25] 0))) = 2"
proof -
  have bad: "pdf demo_env [] 0 = (Inl (External (str ''bad pdf'')), 0)"
    by (simp add: demo_env_def)
  have good: "pdf demo_env [0x25] 0 = (Inr \<lparr>pdf_text = [0x25], numpages = 2, info = [], version = []\<rparr>, 0)"
    by (simp add: demo_env_def)
  note f = extractFromPDF_fallback [of demo_env "[]" 0, THEN conjunct2, THEN conjunct1, THEN mp, OF bad]
  note g = extractFromPDF_fallback [of demo_env "[0x25]" 0, THEN conjunct2, THEN conjunct2, THEN mp, OF good]
  from g obtain r where "extractFromPDF demo_env [0x25] 0 = (Inr r, 0)"
    "ex_confidence r = 0.95" "ex_pages r = numpages \<lparr>pdf_text = [0x25], numpages = 2, info = [], version = []\<rparr>"
    by blast
  then show ?thesis using bad good f by simp
qed

lemma extractFromText_never_falls_back:
  "\<exists>r. extractFromText buf w = (Inr r, w) \<and> ex_confidence r = 1
        \<and> ex_encoding r = Some (str ''UTF-8'') \<and> ex_pages r = page_estimate (ex_text r)"
  by (simp add: extractFromText_def toString_def)

text \<open>
  C5. The four bytes of \<^verbatim>\<open>caf\<close> followed by \<open>0xE9\<close> (the Latin-1 letter e with an
  acute accent) are not well-formed UTF-8. The decoding does not throw: it puts U+FFFD
  for the last byte, and the result has confidence 1 and encoding \<^verbatim>\<open>UTF-8\<close>, not 0.9
  and \<^verbatim>\<open>latin1\<close>. By \<open>extractFromText_never_falls_back\<close> that holds for every buffer,
  with \<open>pages\<close> the estimate from the length of the text.
\<close>

theorem extractFromText_invalid_utf8:
  "extractFromText [0x63, 0x61, 0x66, 0xE9] w =
     (Inr \<lparr>ex_text = [0x63, 0x61, 0x66, 0xFFFD], ex_confidence = 1, ex_pages = 1,
           ex_encoding = Some (str ''UTF-8''),
           ex_metadata = [(''extractionMethod'', MString (str ''direct'')),
                          (''originalEncoding'', MString (str ''UTF-8''))]\<rparr>, w)"
  by (simp add: extractFromText_def toString_def utf8_lead_def utf16_units_def page_estimate_div)

text \<open>
  C9. \<open>optimizeImage\<close> never throws: when the image library throws it returns the
  bytes it was given, otherwise the bytes the library made. \<open>extractFromImage\<close> passes
  the bytes that \<open>optimizeImage\<close> returned to the document analysis, in the state that
  \<open>optimizeImage\<close> left, and its outcome is the outcome of that analysis: a result
  with the text and confidence of the analysis, or the error of the analysis.
\<close>

theorem preprocessing_never_fails_extraction:
  "(\<exists>b w1. optimizeImage e buf w = (Inr b, w1))
   \<and> (sharp_pipeline e buf w = (Inl err, w1) \<longrightarrow> optimizeImage e buf w = (Inr buf, w1))
   \<and> (sharp_pipeline e buf w = (Inr ob, w1) \<longrightarrow> optimizeImage e buf w = (Inr ob, w1))
   \<and> (optimizeImage e buf w = (Inr ob, w1) \<and> analyzeDocument e ob w1 = (Inr res, w2) \<longrightarrow>
        (\<exists>r. extractFromImage e buf w = (Inr r, w2)
           \<and> ex_text r = analysis_text res
           \<and> ex_confidence r = analysis_confidence res
           \<and> map_of (ex_metadata r) ''optimizedSize'' = Some (MNumber (int (length ob)))))
   \<and> (optimizeImage e buf w = (Inr ob, w1) \<and> analyzeDocument e ob w1 = (Inl err', w2) \<longrightarrow>
        extractFromImage e buf w = (Inl err', w2))"
  by (cases "sharp_pipeline e buf w"; cases "fst (sharp_pipeline e buf w)")
     (auto simp: optimizeImage_def extractFromImage_def)

theorem preprocessing_never_fails_extraction_witness:
  "sharp_pipeline demo_env [] 0 = (Inl (External (str ''bad image'')), 1)
   \<and> optimizeImage demo_env [] 0 = (Inr [], 1)
   \<and> \<not> isl (fst (extractFromImage demo_env [] 0))
   \<and> sharp_pipeline demo_env [1, 2] 0 = (Inr [1, 2, 0], 1)
   \<and> optimizeImage demo_env [1, 2] 0 = (Inr [1, 2, 0], 1)
   \<and> extractFromImage demo_env [1, 2] 0 = (Inl (External (str ''too large'')), 2)"
proof -
  have s0: "sharp_pipeline demo_env [] 0 = (Inl (External (str ''bad image'')), 1)"
    by (simp add: demo_env_def)
  have s1: "sharp_pipeline demo_env [1, 2] 0 = (Inr [1, 2, 0], 1)"
    by (simp add: demo_env_def)
  have a0: "analyzeDocument demo_env [] 1
      = (Inr \<lparr>analysis_text = [], analysis_confidence = 0.5, analysis_pages = []\<rparr>, 2)"
    by (simp add: demo_env_def)
  have a1: "analyzeDocument demo_env [1, 2, 0] 1 = (Inl (External (str ''too large'')), 2)"
    by (simp add: demo_env_def)
  note p0 = preprocessing_never_fails_extraction [where e = demo_env and buf = "[]" and w = 0]
  note p1 = preprocessing_never_fails_extraction [where e = demo_env and buf = "[1, 2]" and w = 0]
  note o0 = p0 [THEN conjunct2, THEN conjunct1, THEN mp, OF s0]
  note o1 = p1 [THEN conjunct2, THEN conjunct2, THEN conjunct1, THEN mp, OF s1]
  note x0 = p0 [THEN conjunct2, THEN conjunct2, THEN conjunct2, THEN conjunct1, THEN mp,
      OF conjI [OF o0 a0]]
  note x1 = p1 [THEN conjunct2, THEN conjunct2, THEN conjunct2, THEN conjunct2, THEN mp,
      OF conjI [OF o1 a1]]
  from x0 have "\<not> isl (fst (extractFromImage demo_env [] 0))" by auto
  then show ?thesis using s0 s1 o0 o1 x1 by simp
qed

section \<open>Language and pages of a document\<close>

lemmas lang_defs = detectLanguage_def first_words_def commonWords_def lang_step_def score_def
  words_en_def words_es_def words_fr_def str_def toLowerCase_def split_ws_def is_ws_def

text \<open>
  C8, as the specification states it, fails: for the empty text the result is
  \<^verbatim>\<open>unknown\<close>, and for \<^verbatim>\<open>el le\<close>, where Spanish and French both score 1 and
  English 0, it is \<^verbatim>\<open>es\<close>.
\<close>

theorem detectLanguage_not_always_english:
  "detectLanguage [] = str ''unknown''
   \<and> detectLanguage [] \<noteq> str ''en''
   \<and> score (take 100 (split_ws (toLowerCase (str ''el le'')))) words_es
       = score (take 100 (split_ws (toLowerCase (str ''el le'')))) words_fr
   \<and> detectLanguage (str ''el le'') = str ''es''
   \<and> detectLanguage (str ''el le'') \<noteq> str ''en''"
  by (simp add: lang_defs)

text \<open>
  C8, amended. For the empty text \<open>detectLanguage\<close> returns \<^verbatim>\<open>unknown\<close>. For every
  other text it scores the first 100 pieces of the lower-cased text, split at white
  space, against the three word lists and returns a language with the highest score,
  the first of English, Spanish and French among those with that score: English
  when no other scores more, Spanish when it scores more than English and French does
  not score more than Spanish, French when it scores more than both.
\<close>

theorem detectLanguage_first_maximum:
  "detectLanguage [] = str ''unknown''
   \<and> (text \<noteq> [] \<longrightarrow>
        (let ws = take 100 (split_ws (toLowerCase text));
             en = score ws words_en; es = score ws words_es; fr = score ws words_fr
         in (detectLanguage text = str ''en'' \<and> es \<le> en \<and> fr \<le> en)
          \<or> (detectLanguage text = str ''es'' \<and> en < es \<and> fr \<le> es)
          \<or> (detectLanguage text = str ''fr'' \<and> en < fr \<and> es < fr)))"
  by (auto simp: detectLanguage_def first_words_def commonWords_def lang_step_def Let_def)

theorem detectLanguage_first_maximum_witness:
  "str ''el le'' \<noteq> []
   \<and> detectLanguage (str ''el le'') = str ''es''
   \<and> score (take 100 (split_ws (toLowerCase (str ''el le'')))) words_en = 0
   \<and> score (take 100 (split_ws (toLowerCase (str ''el le'')))) words_es = 1
   \<and> score (take 100 (split_ws (toLowerCase (str ''el le'')))) words_fr = 1"
proof -
  have ne: "str ''el le'' \<noteq> []" by (simp add: str_def)
  have sc: "score (take 100 (split_ws (toLowerCase (str ''el le'')))) words_en = 0"
    "score (take 100 (split_ws (toLowerCase (str ''el le'')))) words_es = 1"
    "score (take 100 (split_ws (toLowerCase (str ''el le'')))) words_fr = 1"
    by (simp_all add: lang_defs)
  have "detectLanguage (str ''el le'') = str ''es''"
    using detectLanguage_first_maximum [of "str ''el le''", THEN conjunct2, THEN mp, OF ne] sc
    by (simp add: Let_def)
  then show ?thesis using ne sc by simp
qed

text \<open>
  C10. Every document that \<open>processDocument\<close> returns has at least one page: the
  object is built with \<open>pages\<close> 1 when the extraction reports 0 pages, and with the
  pages of the extraction otherwise.
\<close>

theorem pages_at_least_one:
  "(processDocument e cfg fileopt w = (Inr doc, w') \<longrightarrow> pages doc \<ge> 1)
   \<and> (ex_pages er = 0 \<longrightarrow> pages (assemble docId f up er t created) = 1)
   \<and> (ex_pages er \<noteq> 0 \<longrightarrow> pages (assemble docId f up er t created) = ex_pages er)"
proof (intro conjI impI)
  assume "processDocument e cfg fileopt w = (Inr doc, w')"
  from processDocument_assembled [OF this]
  obtain f' docId' up' er' t' created' where "doc = assemble docId' f' up' er' t' created'"
    by blast
  then show "pages doc \<ge> 1" by (simp add: assemble_def)
qed (simp_all add: assemble_def)

theorem pages_at_least_one_witness:
  "ex_pages (projr (fst (extractText demo_env (demo_file ''a.pdf'' ''application/pdf'' []) 2))) = 0
   \<and> \<not> isl (fst (processDocument demo_env demo_config (Some (demo_file ''a.pdf'' ''application/pdf'' [])) 0))
   \<and> pages (projr (fst (processDocument demo_env demo_config (Some (demo_file ''a.pdf'' ''application/pdf'' [])) 0))) = 1
   \<and> pages (projr (fst (processDocument demo_env demo_config (Some (demo_file ''a.pdf'' ''application/pdf'' [])) 0))) \<ge> 1
   \<and> pages (projr (fst (processDocument demo_env demo_config (Some (demo_file ''b.pdf'' ''application/pdf'' [0x25])) 0))) = 2"
proof -
  let ?f = "demo_file ''a.pdf'' ''application/pdf'' []"
  let ?g = "demo_file ''b.pdf'' ''application/pdf'' [0x25]"
  let ?p = "processDocument demo_env demo_config (Some ?f) 0"
  have x: "ex_pages (projr (fst (extractText demo_env ?f 2))) = 0"
    by (simp add: run_defs)
  have ok: "\<not> isl (fst ?p)" and one: "pages (projr (fst ?p)) = 1"
    and two: "pages (projr (fst (processDocument demo_env demo_config (Some ?g) 0))) = 2"
    by (simp_all add: run_defs)
  note c = result_collapse [OF ok]
  note ge = pages_at_least_one [where e = demo_env and cfg = demo_config
      and fileopt = "Some ?f" and w = 0
      and doc = "projr (fst ?p)" and w' = "snd ?p", THEN conjunct1, THEN mp, OF c]
  show ?thesis using x ok one two ge by blast
qed


end
